theory Spec2Isabelle
  imports Complex_Main "HOL-Library.Sublist" "HOL-Library.Log_Nat"
begin

section \<open>Agent records and collaborators of the witness package\<close>

text \<open>
  The fields of \<open>beads.AgentFields\<close> that \<open>internal/witness/circuit_breaker.go\<close> reads.
  \<open>FailureCount\<close> is a Go \<open>int\<close>; no operation of this development brings it near the
  64-bit bounds, so it is an unbounded integer here.
\<close>

record AgentFields =
  RoleType :: string
  Rig :: string
  HookBead :: string
  CleanupStatus :: string
  FailureCount :: int
  CircuitState :: string

text \<open>The circuit state constants of the beads package, as the tests pin them.\<close>

definition CircuitClosed :: string where
  "CircuitClosed = ''closed''"

definition CircuitOpen :: string where
  "CircuitOpen = ''open''"

definition CircuitHalfOpen :: string where
  "CircuitHalfOpen = ''half_open''"

record Issue =
  Description :: string

datatype MailPriority = PriorityHigh | PriorityUrgent

datatype MailType = TypeTask

text \<open>
  \<open>mail.Message\<close> as the witness fills it in. The identifier is assigned by the router's
  \<open>Send\<close> and is modelled as its result.
\<close>

record Message =
  From :: string
  To :: string
  Subject :: string
  MsgPriority :: MailPriority
  MsgType :: MailType
  Body :: string

text \<open>The result of \<open>AutoNukeIfClean\<close>: the fields that \<open>processTrippedCircuit\<close> reads.\<close>

record NukeResult =
  Nuked :: bool
  Reason :: string
  NukeError :: "string option"

text \<open>
  Every call to a collaborator with an effect is recorded, in order. A collaborator's
  answer may depend on everything that happened before it, so it takes the trace so far.
\<close>

datatype Event =
  SendEv Message
  | NukeEv string string string

type_synonym Trace = "Event list"

text \<open>\<open>Send\<close> of a router: \<open>Inl\<close> the error, \<open>Inr\<close> the identifier given to the message.\<close>

type_synonym Router = "Trace \<Rightarrow> Message \<Rightarrow> string + string"

text \<open>
  The collaborators that are not part of the witness package: \<open>workspace.Find\<close> (town root
  and error), \<open>ListAgentBeads\<close> (the agent beads in the order the range loop visits them,
  or an error), \<open>beads.ParseAgentFields\<close>, \<open>AutoNukeIfClean\<close>, \<open>beads.GetPrefixForRig\<close>
  and \<open>beads.PolecatBeadIDWithPrefix\<close>.
\<close>

record Env =
  workspace_Find :: "string \<Rightarrow> string \<times> string option"
  ListAgentBeads :: "string \<Rightarrow> string + (string \<times> Issue) list"
  ParseAgentFields :: "string \<Rightarrow> AgentFields"
  AutoNukeIfClean :: "Trace \<Rightarrow> string \<Rightarrow> string \<Rightarrow> string \<Rightarrow> NukeResult"
  GetPrefixForRig :: "string \<Rightarrow> string \<Rightarrow> string"
  PolecatBeadIDWithPrefix :: "string \<Rightarrow> string \<Rightarrow> string \<Rightarrow> string"

section \<open>Circuit breaker configuration and results\<close>

definition DefaultMaxFailures :: int where
  "DefaultMaxFailures = 3"

text \<open>A \<open>time.Duration\<close> is a number of nanoseconds.\<close>

definition DefaultCooldownPeriod :: int where
  "DefaultCooldownPeriod = 5 * 60000000000"

record CircuitBreakerConfig =
  MaxFailures :: int
  CooldownPeriod :: int

definition DefaultCircuitBreakerConfig :: CircuitBreakerConfig where
  "DefaultCircuitBreakerConfig =
     \<lparr>MaxFailures = DefaultMaxFailures, CooldownPeriod = DefaultCooldownPeriod\<rparr>"

record CircuitBreakerResult =
  PolecatName :: string
  AgentBeadID :: string
  ResCircuitState :: string
  ResFailureCount :: int
  Action :: string
  WispID :: string
  MailSent :: string
  Error :: "string option"

section \<open>Formatting\<close>

definition NL :: string where
  "NL = [CHR 0x0A]"

text \<open>The verb \<open>%d\<close> of \<open>fmt.Sprintf\<close> on an \<open>int\<close>.\<close>

fun natToDec :: "nat \<Rightarrow> string" where
  "natToDec n =
     (if n < 10 then [''0123456789'' ! n]
      else natToDec (n div 10) @ [''0123456789'' ! (n mod 10)])"

declare natToDec.simps [simp del]

definition fmtInt :: "int \<Rightarrow> string" where
  "fmtInt i = (if i < 0 then CHR ''-'' # natToDec (nat (- i)) else natToDec (nat i))"

section \<open>extractPolecatName\<close>

definition marker :: string where
  "marker = ''-polecat-''"

text \<open>The first loop: from \<open>i\<close> down to 0, the rest after the marker found at \<open>i\<close>.\<close>

fun scanMarker :: "string \<Rightarrow> nat \<Rightarrow> string option" where
  "scanMarker s 0 =
     (if take (length marker) s = marker then Some (drop (length marker) s) else None)"
| "scanMarker s (Suc i) =
     (if take (length marker) (drop (Suc i) s) = marker
      then Some (drop (Suc i + length marker) s)
      else scanMarker s i)"

text \<open>The fallback loop: from \<open>i\<close> down to 0, the rest after the dash found at \<open>i\<close>.\<close>

fun scanDash :: "string \<Rightarrow> nat \<Rightarrow> string option" where
  "scanDash s 0 = (if s ! 0 = CHR ''-'' then Some (drop 1 s) else None)"
| "scanDash s (Suc i) =
     (if s ! Suc i = CHR ''-'' then Some (drop (Suc i + 1) s) else scanDash s i)"

definition extractPolecatName :: "string \<Rightarrow> string" where
  "extractPolecatName agentBeadID =
     (case (if length marker \<le> length agentBeadID
            then scanMarker agentBeadID (length agentBeadID - length marker)
            else None) of
        Some name \<Rightarrow> name
      | None \<Rightarrow>
          (case (if agentBeadID = [] then None
                 else scanDash agentBeadID (length agentBeadID - 1)) of
             Some name \<Rightarrow> name
           | None \<Rightarrow> agentBeadID))"

section \<open>Notifications\<close>

definition requeueMessage :: "string \<Rightarrow> string \<Rightarrow> string \<Rightarrow> int \<Rightarrow> Message" where
  "requeueMessage rigName polecatName hookBeadID failureCount =
     \<lparr>From = rigName @ ''/witness'',
      To = ''mayor/'',
      Subject = ''WORK_REQUEUE '' @ hookBeadID,
      MsgPriority = PriorityHigh,
      MsgType = TypeTask,
      Body = ''Work needs reassignment after circuit breaker trip.'' @ NL @ NL
        @ ''Bead: '' @ hookBeadID @ NL
        @ ''Previous Polecat: '' @ rigName @ ''/'' @ polecatName @ NL
        @ ''Failure Count: '' @ fmtInt failureCount @ NL
        @ ''Reason: Circuit breaker tripped after consecutive failures'' @ NL @ NL
        @ ''The previous polecat has been nuked. Please assign this work to a fresh polecat.'' @ NL
        @ ''This is NOT a retry - the work may need investigation for consistent failures.''\<rparr>"

text \<open>
  \<open>sendWorkRequeue\<close>: the error or the identifier of the sent message, and the trace. A nil
  router is \<open>None\<close>.
\<close>

definition sendWorkRequeue ::
  "Router option \<Rightarrow> string \<Rightarrow> string \<Rightarrow> string \<Rightarrow> int \<Rightarrow> Trace \<Rightarrow> (string + string) \<times> Trace" where
  "sendWorkRequeue router rigName polecatName hookBeadID failureCount tr =
     (case router of
        None \<Rightarrow> (Inl ''router is nil'', tr)
      | Some r \<Rightarrow>
          (let msg = requeueMessage rigName polecatName hookBeadID failureCount in
           case r tr msg of
             Inl err \<Rightarrow> (Inl err, tr @ [SendEv msg])
           | Inr msgID \<Rightarrow> (Inr msgID, tr @ [SendEv msg])))"

definition escalationMessage :: "string \<Rightarrow> string \<Rightarrow> AgentFields \<Rightarrow> string \<Rightarrow> Message" where
  "escalationMessage rigName polecatName flds reason =
     \<lparr>From = rigName @ ''/witness'',
      To = ''mayor/'',
      Subject = ''CIRCUIT_BREAKER_ESCALATION '' @ rigName @ ''/'' @ polecatName,
      MsgPriority = PriorityUrgent,
      MsgType = TypeTask,
      Body = ''Circuit breaker tripped but couldn'' @ [CHR 0x27] @ ''t auto-nuke polecat.'' @ NL @ NL
        @ ''Polecat: '' @ rigName @ ''/'' @ polecatName @ NL
        @ ''Circuit State: '' @ CircuitState flds @ NL
        @ ''Failure Count: '' @ fmtInt (FailureCount flds) @ NL
        @ ''Cleanup Status: '' @ CleanupStatus flds @ NL
        @ ''Hook Bead: '' @ HookBead flds @ NL
        @ ''Nuke Blocked: '' @ reason @ NL @ NL
        @ ''Please investigate and manually resolve:'' @ NL
        @ ''1. Check if polecat has valuable uncommitted work'' @ NL
        @ ''2. Either recover work or authorize force-nuke'' @ NL
        @ ''3. Reassign the work (if any) to a fresh polecat''\<rparr>"

text \<open>\<open>escalateTrippedCircuit\<close> hands the message to \<open>Send\<close> and drops what it returns.\<close>

definition escalateTrippedCircuit ::
  "Router \<Rightarrow> string \<Rightarrow> string \<Rightarrow> AgentFields \<Rightarrow> string \<Rightarrow> Trace \<Rightarrow> Trace" where
  "escalateTrippedCircuit router rigName polecatName flds reason tr =
     tr @ [SendEv (escalationMessage rigName polecatName flds reason)]"

section \<open>The isolation sequence\<close>

text \<open>The two places where \<open>processTrippedCircuit\<close> escalates behind \<open>router != nil\<close>.\<close>

definition escalateIfRouter ::
  "Router option \<Rightarrow> string \<Rightarrow> string \<Rightarrow> AgentFields \<Rightarrow> string \<Rightarrow> Trace \<Rightarrow> Trace" where
  "escalateIfRouter router rigName polecatName flds reason tr =
     (case router of
        None \<Rightarrow> tr
      | Some r \<Rightarrow> escalateTrippedCircuit r rigName polecatName flds reason tr)"

text \<open>The part of \<open>processTrippedCircuit\<close> after the requeue: auto-nuke, then the outcome.\<close>

definition nukeAndSettle ::
  "Env \<Rightarrow> string \<Rightarrow> string \<Rightarrow> AgentFields \<Rightarrow> Router option \<Rightarrow> CircuitBreakerResult \<Rightarrow> Trace
     \<Rightarrow> CircuitBreakerResult \<times> Trace" where
  "nukeAndSettle env workDir rigName flds router result tr =
     (let nukeResult = AutoNukeIfClean env tr workDir rigName (PolecatName result);
          tr1 = tr @ [NukeEv workDir rigName (PolecatName result)]
      in if NukeError nukeResult \<noteq> None then
           (result\<lparr>Error := NukeError nukeResult, Action := ''escalated''\<rparr>,
            escalateIfRouter router rigName (PolecatName result) flds (Reason nukeResult) tr1)
         else if Nuked nukeResult then
           (result\<lparr>Action := ''requeued''\<rparr>, tr1)
         else
           (result\<lparr>Action := ''escalated''\<rparr>,
            escalateIfRouter router rigName (PolecatName result) flds (Reason nukeResult) tr1))"

definition processTrippedCircuit ::
  "Env \<Rightarrow> string \<Rightarrow> string \<Rightarrow> string \<Rightarrow> AgentFields \<Rightarrow> CircuitBreakerConfig \<Rightarrow> Router option
     \<Rightarrow> CircuitBreakerResult \<Rightarrow> Trace \<Rightarrow> CircuitBreakerResult \<times> Trace" where
  "processTrippedCircuit env workDir rigName agentBeadID flds config router result tr =
     (if HookBead flds \<noteq> [] then
        (case sendWorkRequeue router rigName (PolecatName result) (HookBead flds)
                (FailureCount flds) tr of
           (Inl err, tr1) \<Rightarrow>
             (result\<lparr>Error := Some (''sending WORK_REQUEUE: '' @ err), Action := ''error''\<rparr>, tr1)
         | (Inr mailID, tr1) \<Rightarrow>
             nukeAndSettle env workDir rigName flds router (result\<lparr>MailSent := mailID\<rparr>) tr1)
      else nukeAndSettle env workDir rigName flds router result tr)"

section \<open>CheckCircuitBreakers\<close>

text \<open>The result record that \<open>CheckCircuitBreakers\<close> allocates for a tripped agent.\<close>

definition newResult :: "string \<Rightarrow> AgentFields \<Rightarrow> CircuitBreakerResult" where
  "newResult bid flds =
     \<lparr>PolecatName = extractPolecatName bid, AgentBeadID = bid,
      ResCircuitState = CircuitState flds, ResFailureCount = FailureCount flds,
      Action = [], WispID = [], MailSent = [], Error = None\<rparr>"

text \<open>
  The range loop over the agent beads. Go leaves the order of a map's keys open; the list
  is the order in which this run visits them.
\<close>

fun checkLoop ::
  "Env \<Rightarrow> string \<Rightarrow> string \<Rightarrow> CircuitBreakerConfig \<Rightarrow> Router option \<Rightarrow> (string \<times> Issue) list
     \<Rightarrow> CircuitBreakerResult list \<Rightarrow> Trace \<Rightarrow> CircuitBreakerResult list \<times> Trace" where
  "checkLoop env workDir rigName config router [] results tr = (results, tr)"
| "checkLoop env workDir rigName config router ((bid, issue) # rest) results tr =
     (let flds = ParseAgentFields env (Description issue) in
      if RoleType flds \<noteq> ''polecat'' \<or> Rig flds \<noteq> rigName then
        checkLoop env workDir rigName config router rest results tr
      else if CircuitState flds \<noteq> CircuitOpen then
        checkLoop env workDir rigName config router rest results tr
      else
        (let (result, tr') =
                processTrippedCircuit env workDir rigName bid flds config router
                  (newResult bid flds) tr
         in checkLoop env workDir rigName config router rest (results @ [result]) tr'))"

definition CheckCircuitBreakers ::
  "Env \<Rightarrow> string \<Rightarrow> string \<Rightarrow> CircuitBreakerConfig option \<Rightarrow> Router option \<Rightarrow> Trace
     \<Rightarrow> CircuitBreakerResult list \<times> Trace" where
  "CheckCircuitBreakers env workDir rigName config router tr =
     (let config' = (case config of None \<Rightarrow> DefaultCircuitBreakerConfig | Some c \<Rightarrow> c);
          (townRoot, err) = workspace_Find env workDir
      in if err \<noteq> None \<or> townRoot = [] then ([], tr)
         else (case ListAgentBeads env workDir of
                 Inl e \<Rightarrow> ([], tr)
               | Inr agentBeads \<Rightarrow>
                   checkLoop env workDir rigName config' router agentBeads [] tr))"

text \<open>An agent bead that \<open>CheckCircuitBreakers\<close> processes: a polecat of the rig, circuit open.\<close>

definition isCandidate :: "Env \<Rightarrow> string \<Rightarrow> string \<times> Issue \<Rightarrow> bool" where
  "isCandidate env rigName entry =
     (let flds = ParseAgentFields env (Description (snd entry)) in
      RoleType flds = ''polecat'' \<and> Rig flds = rigName \<and> CircuitState flds = CircuitOpen)"

section \<open>Sample collaborators\<close>

text \<open>Concrete collaborators on which the theorems below are instantiated.\<close>

definition sampleFields :: AgentFields where
  "sampleFields =
     \<lparr>RoleType = ''polecat'', Rig = ''gastown'', HookBead = ''gs-abc123'',
      CleanupStatus = ''clean'', FailureCount = 3, CircuitState = ''open''\<rparr>"

definition sampleParse :: "string \<Rightarrow> AgentFields" where
  "sampleParse d =
     (if d = ''hooked'' then sampleFields
      else if d = ''idle'' then sampleFields\<lparr>HookBead := []\<rparr>
      else if d = ''other rig'' then sampleFields\<lparr>Rig := ''beads''\<rparr>
      else if d = ''witness'' then sampleFields\<lparr>RoleType := ''witness''\<rparr>
      else sampleFields\<lparr>CircuitState := d\<rparr>)"

definition sampleBeads :: "(string \<times> Issue) list" where
  "sampleBeads =
     [(''gs-gastown-polecat-slit'', \<lparr>Description = ''closed''\<rparr>),
      (''gs-gastown-polecat-nux'', \<lparr>Description = ''hooked''\<rparr>),
      (''gs-gastown-polecat-ace'', \<lparr>Description = ''half_open''\<rparr>),
      (''bd-beads-polecat-worker'', \<lparr>Description = ''other rig''\<rparr>),
      (''gs-gastown-witness'', \<lparr>Description = ''witness''\<rparr>)]"

definition idleBeads :: "(string \<times> Issue) list" where
  "idleBeads = [(''gs-gastown-polecat-nux'', \<lparr>Description = ''idle''\<rparr>)]"

definition sampleEnv :: "(string \<times> Issue) list \<Rightarrow> NukeResult \<Rightarrow> Env" where
  "sampleEnv agentBeads nukeResult =
     \<lparr>workspace_Find = (\<lambda>workDir. (''/town'', None)),
      ListAgentBeads = (\<lambda>workDir. Inr agentBeads),
      ParseAgentFields = sampleParse,
      AutoNukeIfClean = (\<lambda>tr workDir rigName polecatName. nukeResult),
      GetPrefixForRig = (\<lambda>townRoot rigName. ''gs''),
      PolecatBeadIDWithPrefix =
        (\<lambda>prefix rigName polecatName. prefix @ ''-'' @ rigName @ ''-polecat-'' @ polecatName)\<rparr>"

definition nukeDone :: NukeResult where
  "nukeDone = \<lparr>Nuked = True, Reason = [], NukeError = None\<rparr>"

definition nukeRefused :: NukeResult where
  "nukeRefused = \<lparr>Nuked = False, Reason = ''uncommitted changes'', NukeError = None\<rparr>"

definition okRouter :: Router where
  "okRouter tr msg = Inr ''msg-1''"

definition failRouter :: Router where
  "failRouter tr msg = Inl ''mailbox unavailable''"


section \<open>Failure counter\<close>

text \<open>The agent store of the beads package: the fields of each agent bead, by identifier.\<close>

type_synonym AgentStore = "string \<rightharpoonup> AgentFields"

text \<open>
  Modelled from the spec: \<open>IncrementAgentFailureCount\<close> of the beads package, which
  \<open>HandlePolecatFailure\<close> calls, is not among the sources. Section 4.1 of the spec:
  ``increments the persisted failure count by one and, if the new count reaches
  \<open>maxFailures\<close>, transitions circuit state to \<open>open\<close> and reports \<open>tripped = true\<close>;
  otherwise state is unchanged and \<open>tripped = false\<close>''; a missing agent record is a
  reported error. The result is the new count, the tripped flag and the error.
\<close>

definition IncrementAgentFailureCount ::
  "AgentStore \<Rightarrow> string \<Rightarrow> int \<Rightarrow> (int \<times> bool \<times> string option) \<times> AgentStore" where
  "IncrementAgentFailureCount store agentBeadID maxFailures =
     (case store agentBeadID of
        None \<Rightarrow> ((0, False, Some (''agent bead not found: '' @ agentBeadID)), store)
      | Some flds \<Rightarrow>
          (let newCount = FailureCount flds + 1 in
           if maxFailures \<le> newCount then
             ((newCount, True, None),
              store(agentBeadID \<mapsto> flds\<lparr>FailureCount := newCount, CircuitState := CircuitOpen\<rparr>))
           else
             ((newCount, False, None),
              store(agentBeadID \<mapsto> flds\<lparr>FailureCount := newCount\<rparr>))))"

text \<open>
  \<open>HandlePolecatFailure\<close>, the failure report of the witness. The verb \<open>%v\<close> prints a nil
  error as \<open><nil>\<close>.
\<close>

definition HandlePolecatFailure ::
  "Env \<Rightarrow> AgentStore \<Rightarrow> string \<Rightarrow> string \<Rightarrow> string \<Rightarrow> int
     \<Rightarrow> (int \<times> bool \<times> string option) \<times> AgentStore" where
  "HandlePolecatFailure env store workDir rigName polecatName maxFailures =
     (let (townRoot, err) = workspace_Find env workDir in
      if err \<noteq> None \<or> townRoot = [] then
        ((0, False,
          Some (''finding town root: '' @ (case err of None \<Rightarrow> ''<nil>'' | Some e \<Rightarrow> e))),
         store)
      else
        (let prefix = GetPrefixForRig env townRoot rigName;
             agentBeadID = PolecatBeadIDWithPrefix env prefix rigName polecatName
         in IncrementAgentFailureCount store agentBeadID maxFailures))"

text \<open>\<open>n\<close> failure reports in a row for one polecat: what each returned, and the store.\<close>

fun recordFailures ::
  "Env \<Rightarrow> string \<Rightarrow> string \<Rightarrow> string \<Rightarrow> int \<Rightarrow> nat \<Rightarrow> AgentStore
     \<Rightarrow> (int \<times> bool \<times> string option) list \<times> AgentStore" where
  "recordFailures env workDir rigName polecatName maxFailures 0 store = ([], store)"
| "recordFailures env workDir rigName polecatName maxFailures (Suc n) store =
     (let (out, store1) = HandlePolecatFailure env store workDir rigName polecatName maxFailures;
          (outs, store2) = recordFailures env workDir rigName polecatName maxFailures n store1
      in (out # outs, store2))"

section \<open>Parsing a requeue message\<close>

text \<open>
  Modelled from the spec: the parser of requeue messages and its payload type are not
  among the sources; the definitions of this section follow sections 4.4 and 6 of the
  spec and the fields that \<open>TestParseWorkRequeue\<close> reads.
\<close>

record WorkRequeuePayload =
  BeadID :: string
  PreviousPolecat :: string
  RequeueFailureCount :: int

definition requeuePrefix :: string where
  "requeuePrefix = ''WORK_REQUEUE ''"

text \<open>\<open>strings.HasPrefix\<close>.\<close>

definition hasPrefix :: "string \<Rightarrow> string \<Rightarrow> bool" where
  "hasPrefix s p = (length p \<le> length s \<and> take (length p) s = p)"

fun splitOn :: "char \<Rightarrow> string \<Rightarrow> string list" where
  "splitOn c [] = [[]]"
| "splitOn c (x # xs) =
     (if x = c then [] # splitOn c xs
      else (case splitOn c xs of [] \<Rightarrow> [[x]] | l # ls \<Rightarrow> (x # l) # ls))"

text \<open>The value of the first line that starts with the key.\<close>

fun lineValue :: "string \<Rightarrow> string list \<Rightarrow> string option" where
  "lineValue key [] = None"
| "lineValue key (l # ls) =
     (if hasPrefix l key then Some (drop (length key) l) else lineValue key ls)"

text \<open>A non-empty string of decimal digits as a number.\<close>

fun decValue :: "nat \<Rightarrow> string \<Rightarrow> nat option" where
  "decValue acc [] = Some acc"
| "decValue acc (c # cs) =
     (if 48 \<le> (of_char c :: nat) \<and> (of_char c :: nat) \<le> 57
      then decValue (10 * acc + (of_char c - 48)) cs
      else None)"

definition parseCount :: "string \<Rightarrow> int" where
  "parseCount s = (if s = [] then 0 else case decValue 0 s of None \<Rightarrow> 0 | Some n \<Rightarrow> int n)"

text \<open>
  Modelled from the spec: \<open>ParseWorkRequeue\<close> is not among the sources; only its test is.
  Sections 4.4 and 6 of the spec: the subject is \<open>WORK_REQUEUE <work-item-id>\<close>; the body
  lines \<open>Previous Polecat: <rig>/<agent>\<close> and \<open>Failure Count: <n>\<close> are optional and
  default to the empty string and to zero; a subject that does not match the
  \<open>WORK_REQUEUE \<close> prefix is a reported error. The spec does not say what a count that is
  not a number parses to; it is zero here.
\<close>

definition ParseWorkRequeue :: "string \<Rightarrow> string \<Rightarrow> string + WorkRequeuePayload" where
  "ParseWorkRequeue subject body =
     (if \<not> hasPrefix subject requeuePrefix then
        Inl (''not a WORK_REQUEUE message: '' @ subject)
      else
        (let ls = splitOn (CHR 0x0A) body in
         Inr \<lparr>BeadID = drop (length requeuePrefix) subject,
              PreviousPolecat =
                (case lineValue ''Previous Polecat: '' ls of None \<Rightarrow> [] | Some v \<Rightarrow> v),
              RequeueFailureCount =
                (case lineValue ''Failure Count: '' ls of None \<Rightarrow> 0 | Some v \<Rightarrow> parseCount v)\<rparr>))"

section \<open>Scoring merge requests\<close>

text \<open>
  Modelled from the spec: the score function of the refinery package, its input and its
  configuration are not among the sources; the definitions of this section follow
  sections 3 and 4.5 of the spec and the fields that the tests of \<open>ScoreMR\<close> set.
  A \<open>time.Time\<close> is a number of nanoseconds counted from the zero time, so that the zero
  value is 0.
\<close>

type_synonym Time = int

record ScoreConfig =
  BaseScore :: real
  ConvoyAgeWeight :: real
  PriorityWeight :: real
  RetryPenalty :: real
  MRAgeWeight :: real
  MaxRetryPenalty :: real

record ScoreInput =
  Priority :: int
  MRCreatedAt :: Time
  ConvoyCreatedAt :: "Time option"
  RetryCount :: int
  Now :: Time

definition Hour :: int where
  "Hour = 3600000000000"

text \<open>\<open>later.Sub(earlier).Hours()\<close>.\<close>

definition hoursBetween :: "Time \<Rightarrow> Time \<Rightarrow> real" where
  "hoursBetween earlier later = real_of_int (later - earlier) / real_of_int Hour"

text \<open>
  Modelled from the spec: \<open>DefaultScoreConfig\<close> of the refinery package is not among the
  sources; the values are those of section 6 of the spec and of \<open>TestDefaultScoreConfig_Values\<close>.
\<close>

definition DefaultScoreConfig :: ScoreConfig where
  "DefaultScoreConfig =
     \<lparr>BaseScore = 1000, ConvoyAgeWeight = 10, PriorityWeight = 100, RetryPenalty = 50,
      MRAgeWeight = 1, MaxRetryPenalty = 300\<rparr>"

text \<open>
  Modelled from the spec: \<open>ScoreMR\<close> of the refinery package is not among the sources; only
  its tests are. The formula is that of section 4.5 of the spec, with both ages measured
  against the evaluation time, which is the wall clock (the first argument) when \<open>Now\<close> is
  the zero time. The spec's floating-point numbers are real numbers here: rounding is
  outside the model.
\<close>

definition ScoreMR :: "Time \<Rightarrow> ScoreInput \<Rightarrow> ScoreConfig \<Rightarrow> real" where
  "ScoreMR wallClock inp config =
     (let now = (if Now inp = 0 then wallClock else Now inp);
          convoyAgeHours =
            (case ConvoyCreatedAt inp of None \<Rightarrow> 0 | Some created \<Rightarrow> hoursBetween created now);
          workItemAgeHours = hoursBetween (MRCreatedAt inp) now
      in BaseScore config
         + ConvoyAgeWeight config * convoyAgeHours
         + PriorityWeight config * real_of_int (4 - Priority inp)
         - min (RetryPenalty config * real_of_int (RetryCount inp)) (MaxRetryPenalty config)
         + MRAgeWeight config * workItemAgeHours)"

text \<open>More sample data.\<close>

definition sampleStore :: AgentStore where
  "sampleStore =
     [''gs-gastown-polecat-nux'' \<mapsto>
        sampleFields\<lparr>FailureCount := 0, CircuitState := CircuitClosed\<rparr>]"

definition sampleInput :: ScoreInput where
  "sampleInput =
     \<lparr>Priority = 2, MRCreatedAt = 63901569600000000000 - 2 * Hour,
      ConvoyCreatedAt = Some (63901569600000000000 - 24 * Hour), RetryCount = 1,
      Now = 63901569600000000000\<rparr>"


section \<open>Scoring with float64 rounding\<close>






text \<open>
  Modelled from the spec: the formula of \<open>ScoreMR\<close> (section 4.5 of the spec) with the
  result of every conversion and operation rounded by \<open>rnd\<close>, the terms added from left
  to right as the spec writes them. With \<open>round64\<close> this is the \<open>float64\<close> evaluation of
  the formula, with the identity it is \<open>ScoreMR\<close>.
\<close>

definition ScoreMR64 :: "(real \<Rightarrow> real) \<Rightarrow> Time \<Rightarrow> ScoreInput \<Rightarrow> ScoreConfig \<Rightarrow> real" where
  "ScoreMR64 rnd wallClock inp config =
     (let now = (if Now inp = 0 then wallClock else Now inp);
          convoyAgeHours =
            (case ConvoyCreatedAt inp of
               None \<Rightarrow> 0
             | Some created \<Rightarrow> rnd (hoursBetween created now));
          workItemAgeHours = rnd (hoursBetween (MRCreatedAt inp) now);
          withConvoy = rnd (BaseScore config + rnd (ConvoyAgeWeight config * convoyAgeHours));
          withPriority =
            rnd (withConvoy
                 + rnd (PriorityWeight config * rnd (real_of_int (4 - Priority inp))));
          withRetries =
            rnd (withPriority
                 - min (rnd (RetryPenalty config * rnd (real_of_int (RetryCount inp))))
                       (MaxRetryPenalty config))
      in rnd (withRetries + rnd (MRAgeWeight config * workItemAgeHours)))"


section \<open>The model on the inputs of the tests\<close>

lemma extractPolecatName_examples:
  "extractPolecatName ''gs-gastown-polecat-nux'' = ''nux''"
  "extractPolecatName ''gs-gastown-polecat-test-agent'' = ''test-agent''"
  "extractPolecatName ''bd-beads-polecat-worker'' = ''worker''"
  "extractPolecatName ''some-random-id'' = ''id''"
  by code_simp+

lemma ParseWorkRequeue_valid_message:
  "ParseWorkRequeue ''WORK_REQUEUE gs-abc123''
     (Body (requeueMessage ''gastown'' ''nux'' ''gs-abc123'' 3))
   = Inr \<lparr>BeadID = ''gs-abc123'', PreviousPolecat = ''gastown/nux'', RequeueFailureCount = 3\<rparr>"
  by code_simp

section \<open>Properties of the isolation sequence\<close>

lemma process_id:
  "AgentBeadID (fst (processTrippedCircuit env workDir rigName bid flds config router result tr))
     = AgentBeadID result"
  by (auto simp: processTrippedCircuit_def nukeAndSettle_def Let_def split: prod.splits sum.splits)

lemma nuke_action:
  "Action (fst (nukeAndSettle env workDir rigName flds router result tr)) = ''requeued''
   \<or> Action (fst (nukeAndSettle env workDir rigName flds router result tr)) = ''escalated''"
  by (simp add: nukeAndSettle_def Let_def)

lemma process_action:
  "Action (fst (processTrippedCircuit env workDir rigName bid flds config router result tr))
     \<in> {''requeued'', ''escalated'', ''error''}"
  using nuke_action [of env workDir rigName flds router _ _]
  by (auto simp: processTrippedCircuit_def split: prod.splits sum.splits)

lemma nuke_env_irrelevant:
  "nukeAndSettle (env\<lparr>ListAgentBeads := f\<rparr>) workDir rigName flds router result tr
     = nukeAndSettle env workDir rigName flds router result tr"
  by (simp add: nukeAndSettle_def)

lemma process_env_irrelevant:
  "processTrippedCircuit (env\<lparr>ListAgentBeads := f\<rparr>) workDir rigName bid flds config router result tr
     = processTrippedCircuit env workDir rigName bid flds config router result tr"
  by (simp add: processTrippedCircuit_def nuke_env_irrelevant split: prod.splits sum.splits)

lemma sendWorkRequeue_trace:
  "snd (sendWorkRequeue router rigName polecatName hookBeadID failureCount tr) = tr
   \<or> snd (sendWorkRequeue router rigName polecatName hookBeadID failureCount tr)
      = tr @ [SendEv (requeueMessage rigName polecatName hookBeadID failureCount)]"
  by (simp add: sendWorkRequeue_def Let_def split: option.splits sum.splits)

lemma sendWorkRequeue_nil_fails:
  "sendWorkRequeue None rigName polecatName hookBeadID failureCount tr = (Inl ''router is nil'', tr)"
  by (simp add: sendWorkRequeue_def)

text \<open>What \<open>nukeAndSettle\<close> leaves in the trace when it escalates.\<close>

lemma nuke_escalated_trace:
  assumes "nukeAndSettle env workDir rigName flds router result tr = (r, tr')"
    and "Action r = ''escalated''"
  shows "tr' = escalateIfRouter router rigName (PolecatName result) flds
                 (Reason (AutoNukeIfClean env tr workDir rigName (PolecatName result)))
                 (tr @ [NukeEv workDir rigName (PolecatName result)])"
  using assms by (auto simp: nukeAndSettle_def Let_def split: if_splits)

subsection \<open>The loop of CheckCircuitBreakers\<close>

lemma checkLoop_skip:
  "\<not> isCandidate env rigName (bid, issue) \<Longrightarrow>
   checkLoop env workDir rigName config router ((bid, issue) # rest) results tr
     = checkLoop env workDir rigName config router rest results tr"
  by (auto simp: isCandidate_def Let_def)

lemma checkLoop_step:
  "isCandidate env rigName (bid, issue) \<Longrightarrow>
   checkLoop env workDir rigName config router ((bid, issue) # rest) results tr
     = (let flds = ParseAgentFields env (Description issue);
            p = processTrippedCircuit env workDir rigName bid flds config router
                  (newResult bid flds) tr
        in checkLoop env workDir rigName config router rest (results @ [fst p]) (snd p))"
  by (auto simp: isCandidate_def Let_def split: prod.splits)

lemma checkLoop_env_irrelevant:
  "checkLoop (env\<lparr>ListAgentBeads := f\<rparr>) workDir rigName config router agentBeads results tr
     = checkLoop env workDir rigName config router agentBeads results tr"
  by (induction agentBeads arbitrary: results tr)
     (auto simp: process_env_irrelevant Let_def split: prod.splits)

lemma isCandidate_env_irrelevant:
  "isCandidate (env\<lparr>ListAgentBeads := f\<rparr>) rigName entry = isCandidate env rigName entry"
  by (simp add: isCandidate_def)

lemma checkLoop_filter:
  "checkLoop env workDir rigName config router (filter (isCandidate env rigName) agentBeads) results tr
     = checkLoop env workDir rigName config router agentBeads results tr"
proof (induction agentBeads arbitrary: results tr)
  case Nil
  then show ?case by simp
next
  case (Cons entry rest)
  obtain bid issue where e: "entry = (bid, issue)" by (cases entry)
  show ?case
    by (cases "isCandidate env rigName (bid, issue)")
       (simp_all add: e checkLoop_skip checkLoop_step Cons.IH Let_def del: checkLoop.simps)
qed

lemma checkLoop_ids:
  "map AgentBeadID (fst (checkLoop env workDir rigName config router agentBeads results tr))
     = map AgentBeadID results @ map fst (filter (isCandidate env rigName) agentBeads)"
proof (induction agentBeads arbitrary: results tr)
  case Nil
  then show ?case by simp
next
  case (Cons entry rest)
  obtain bid issue where e: "entry = (bid, issue)" by (cases entry)
  show ?case
    by (cases "isCandidate env rigName (bid, issue)")
       (simp_all add: e checkLoop_skip checkLoop_step Cons.IH Let_def process_id newResult_def
          del: checkLoop.simps)
qed

lemma checkLoop_actions:
  "\<forall>r \<in> set results. Action r \<in> {''requeued'', ''escalated'', ''error''} \<Longrightarrow>
   \<forall>r \<in> set (fst (checkLoop env workDir rigName config router agentBeads results tr)).
      Action r \<in> {''requeued'', ''escalated'', ''error''}"
proof (induction agentBeads arbitrary: results tr)
  case Nil
  then show ?case by simp
next
  case (Cons entry rest)
  obtain bid issue where e: "entry = (bid, issue)" by (cases entry)
  show ?case
  proof (cases "isCandidate env rigName (bid, issue)")
    case True
    let ?flds = "ParseAgentFields env (Description issue)"
    let ?p = "processTrippedCircuit env workDir rigName bid ?flds config router
                (newResult bid ?flds) tr"
    have "Action (fst ?p) \<in> {''requeued'', ''escalated'', ''error''}"
      by (rule process_action)
    with Cons.prems
    have "\<forall>r \<in> set (results @ [fst ?p]). Action r \<in> {''requeued'', ''escalated'', ''error''}"
      by simp
    from Cons.IH [OF this] show ?thesis
      by (simp add: e checkLoop_step [OF True] Let_def del: checkLoop.simps)
  next
    case False
    with Cons show ?thesis
      by (simp add: e checkLoop_skip del: checkLoop.simps)
  qed
qed

lemma CheckCircuitBreakers_found:
  assumes "workspace_Find env workDir = (townRoot, None)"
    and "townRoot \<noteq> []"
    and "ListAgentBeads env workDir = Inr agentBeads"
  shows "CheckCircuitBreakers env workDir rigName config router tr
         = checkLoop env workDir rigName
             (case config of None \<Rightarrow> DefaultCircuitBreakerConfig | Some c \<Rightarrow> c)
             router agentBeads [] tr"
  using assms by (simp add: CheckCircuitBreakers_def)

lemma escalationMessage_header:
  "To (escalationMessage rigName name flds reason) = ''mayor/''
   \<and> MsgPriority (escalationMessage rigName name flds reason) = PriorityUrgent"
  by (simp add: escalationMessage_def)

lemma escalationMessage_body:
  "Body (escalationMessage rigName name flds reason)
     = (''Circuit breaker tripped but couldn'' @ [CHR 0x27] @ ''t auto-nuke polecat.''
          @ NL @ NL @ ''Polecat: '' @ rigName @ ''/'' @ name @ NL)
       @ ''Circuit State: '' @ CircuitState flds @ NL
       @ ''Failure Count: '' @ fmtInt (FailureCount flds) @ NL
       @ ''Cleanup Status: '' @ CleanupStatus flds @ NL
       @ ''Hook Bead: '' @ HookBead flds @ NL
       @ ''Nuke Blocked: '' @ reason
       @ (NL @ NL @ ''Please investigate and manually resolve:'' @ NL
          @ ''1. Check if polecat has valuable uncommitted work'' @ NL
          @ ''2. Either recover work or authorize force-nuke'' @ NL
          @ ''3. Reassign the work (if any) to a fresh polecat'')"
  by (simp add: escalationMessage_def)

lemma escalationMessage_describes:
  "\<exists>pre post.
     Body (escalationMessage rigName name flds reason)
       = pre @ ''Circuit State: '' @ CircuitState flds @ NL
           @ ''Failure Count: '' @ fmtInt (FailureCount flds) @ NL
           @ ''Cleanup Status: '' @ CleanupStatus flds @ NL
           @ ''Hook Bead: '' @ HookBead flds @ NL
           @ ''Nuke Blocked: '' @ reason @ post"
  by (intro exI) (rule escalationMessage_body)

text \<open>A run of \<open>processTrippedCircuit\<close> that does not end in \<open>error\<close> ends in \<open>nukeAndSettle\<close>.\<close>

lemma process_reaches_nuke:
  assumes "processTrippedCircuit env workDir rigName bid flds config router result tr = (r, tr')"
    and "Action r \<noteq> ''error''"
  shows "\<exists>res0 tr0. nukeAndSettle env workDir rigName flds router res0 tr0 = (r, tr')
           \<and> PolecatName res0 = PolecatName result
           \<and> (HookBead flds = [] \<longrightarrow> tr0 = tr)
           \<and> (HookBead flds \<noteq> [] \<longrightarrow> router \<noteq> None)"
proof (cases "HookBead flds = []")
  case True
  with assms(1) have "nukeAndSettle env workDir rigName flds router result tr = (r, tr')"
    by (simp add: processTrippedCircuit_def)
  with True show ?thesis by blast
next
  case False
  obtain x tr1 where s: "sendWorkRequeue router rigName (PolecatName result) (HookBead flds)
      (FailureCount flds) tr = (x, tr1)"
    by (cases "sendWorkRequeue router rigName (PolecatName result) (HookBead flds)
      (FailureCount flds) tr")
  show ?thesis
  proof (cases x)
    case (Inl err)
    with assms False s have False
      by (auto simp: processTrippedCircuit_def)
    then show ?thesis ..
  next
    case (Inr mailID)
    with assms(1) False s
    have n: "nukeAndSettle env workDir rigName flds router (result\<lparr>MailSent := mailID\<rparr>) tr1
             = (r, tr')"
      by (simp add: processTrippedCircuit_def)
    have "router \<noteq> None"
      using s Inr by (cases router) (simp_all add: sendWorkRequeue_nil_fails)
    with n False show ?thesis
      by (intro exI [of _ "result\<lparr>MailSent := mailID\<rparr>"] exI [of _ tr1]) simp
  qed
qed

section \<open>Claims about the circuit breaker\<close>

text \<open>
  C1, as the code has it. An agent with a hooked work item goes through
  \<open>processTrippedCircuit\<close> with one of three actions, never an empty one: \<open>error\<close> when
  \<open>sendWorkRequeue\<close> fails (a nil router or a failing \<open>Send\<close>), and \<open>requeued\<close> or
  \<open>escalated\<close> when the requeue notification went out.
\<close>

theorem hooked_isolation_action:
  assumes "HookBead flds \<noteq> []"
  shows "(case fst (sendWorkRequeue router rigName (PolecatName result) (HookBead flds)
                      (FailureCount flds) tr) of
            Inl err \<Rightarrow>
              Action (fst (processTrippedCircuit env workDir rigName bid flds config router
                             result tr)) = ''error''
          | Inr mailID \<Rightarrow>
              Action (fst (processTrippedCircuit env workDir rigName bid flds config router
                             result tr)) = ''requeued''
              \<or> Action (fst (processTrippedCircuit env workDir rigName bid flds config router
                               result tr)) = ''escalated'')"
  using assms nuke_action [of env workDir rigName flds router _ _]
  by (auto simp: processTrippedCircuit_def split: prod.splits sum.splits)

theorem hooked_isolation_action_witness:
  "HookBead sampleFields \<noteq> []
   \<and> (Action (fst (processTrippedCircuit (sampleEnv sampleBeads nukeDone) ''/town/gastown''
                     ''gastown'' ''gs-gastown-polecat-nux'' sampleFields
                     DefaultCircuitBreakerConfig (Some okRouter)
                     (newResult ''gs-gastown-polecat-nux'' sampleFields) [])) = ''requeued''
      \<or> Action (fst (processTrippedCircuit (sampleEnv sampleBeads nukeDone) ''/town/gastown''
                       ''gastown'' ''gs-gastown-polecat-nux'' sampleFields
                       DefaultCircuitBreakerConfig (Some okRouter)
                       (newResult ''gs-gastown-polecat-nux'' sampleFields) [])) = ''escalated'')"
proof -
  have h: "HookBead sampleFields \<noteq> []"
    by (simp add: sampleFields_def)
  show ?thesis
    using h hooked_isolation_action [OF h, where router = "Some okRouter"
        and rigName = "''gastown''"
        and result = "newResult ''gs-gastown-polecat-nux'' sampleFields" and tr = "[]"
        and env = "sampleEnv sampleBeads nukeDone" and workDir = "''/town/gastown''"
        and bid = "''gs-gastown-polecat-nux''" and config = DefaultCircuitBreakerConfig]
    by (simp add: sendWorkRequeue_def okRouter_def)
qed

text \<open>
  C1 as stated fails: the open, hooked agent \<open>nux\<close> of the sample snapshot, checked with a
  router whose \<open>Send\<close> fails, gets the action \<open>error\<close>.
\<close>

theorem hooked_isolation_error_action:
  "CircuitState (sampleParse ''hooked'') = CircuitOpen
   \<and> HookBead (sampleParse ''hooked'') \<noteq> []
   \<and> map Action (fst (CheckCircuitBreakers (sampleEnv sampleBeads nukeDone) ''/town/gastown''
                        ''gastown'' None (Some failRouter) [])) = [''error'']"
  by code_simp

text \<open>
  C2. When the agent has a hooked work item and \<open>sendWorkRequeue\<close> returns an error, the
  sequence ends there: the action is \<open>error\<close>, the error field holds the send error
  (wrapped), and the trace gained at most the send attempt and no call of
  \<open>AutoNukeIfClean\<close>.
\<close>

theorem requeue_failure_aborts:
  assumes "HookBead flds \<noteq> []"
    and "sendWorkRequeue router rigName (PolecatName result) (HookBead flds)
           (FailureCount flds) tr = (Inl err, tr1)"
  shows "processTrippedCircuit env workDir rigName bid flds config router result tr
           = (result\<lparr>Error := Some (''sending WORK_REQUEUE: '' @ err), Action := ''error''\<rparr>, tr1)
         \<and> (tr1 = tr
            \<or> tr1 = tr @ [SendEv (requeueMessage rigName (PolecatName result) (HookBead flds)
                                    (FailureCount flds))])
         \<and> (\<forall>w g p. NukeEv w g p \<notin> set (drop (length tr) tr1))"
proof -
  have p: "processTrippedCircuit env workDir rigName bid flds config router result tr
           = (result\<lparr>Error := Some (''sending WORK_REQUEUE: '' @ err), Action := ''error''\<rparr>, tr1)"
    using assms by (simp add: processTrippedCircuit_def)
  have t: "tr1 = tr
            \<or> tr1 = tr @ [SendEv (requeueMessage rigName (PolecatName result) (HookBead flds)
                                    (FailureCount flds))]"
    using sendWorkRequeue_trace [of router rigName "PolecatName result" "HookBead flds"
        "FailureCount flds" tr] assms(2)
    by simp
  from t have n: "\<forall>w g p. NukeEv w g p \<notin> set (drop (length tr) tr1)"
    by auto
  from p t n show ?thesis by blast
qed

theorem requeue_failure_aborts_witness:
  "HookBead sampleFields \<noteq> []
   \<and> sendWorkRequeue (Some failRouter) ''gastown'' ''nux'' (HookBead sampleFields)
        (FailureCount sampleFields) []
       = (Inl ''mailbox unavailable'', [SendEv (requeueMessage ''gastown'' ''nux'' ''gs-abc123'' 3)])
   \<and> processTrippedCircuit (sampleEnv sampleBeads nukeDone) ''/town/gastown'' ''gastown''
        ''gs-gastown-polecat-nux'' sampleFields DefaultCircuitBreakerConfig (Some failRouter)
        (newResult ''gs-gastown-polecat-nux'' sampleFields) []
       = ((newResult ''gs-gastown-polecat-nux'' sampleFields)
            \<lparr>Error := Some ''sending WORK_REQUEUE: mailbox unavailable'', Action := ''error''\<rparr>,
          [SendEv (requeueMessage ''gastown'' ''nux'' ''gs-abc123'' 3)])"
proof -
  have n: "PolecatName (newResult ''gs-gastown-polecat-nux'' sampleFields) = ''nux''"
    by code_simp
  have h1: "HookBead sampleFields \<noteq> []"
    by (simp add: sampleFields_def)
  have h2: "sendWorkRequeue (Some failRouter) ''gastown''
              (PolecatName (newResult ''gs-gastown-polecat-nux'' sampleFields))
              (HookBead sampleFields) (FailureCount sampleFields) []
            = (Inl ''mailbox unavailable'',
               [SendEv (requeueMessage ''gastown'' ''nux'' ''gs-abc123'' 3)])"
    unfolding n by (simp add: sendWorkRequeue_def failRouter_def sampleFields_def)
  show ?thesis
    using h1 h2 requeue_failure_aborts [OF h1 h2, where env = "sampleEnv sampleBeads nukeDone"
        and workDir = "''/town/gastown''" and bid = "''gs-gastown-polecat-nux''"
        and config = DefaultCircuitBreakerConfig]
    by (simp add: n)
qed


text \<open>
  C3 as stated fails: with a nil router and no hooked work, a refused nuke is recorded as
  \<open>escalated\<close> and the only collaborator call is \<open>AutoNukeIfClean\<close>; nothing is sent.
\<close>

theorem escalated_without_notification:
  "CheckCircuitBreakers (sampleEnv idleBeads nukeRefused) ''/town/gastown'' ''gastown'' None None []
     = ([\<lparr>PolecatName = ''nux'', AgentBeadID = ''gs-gastown-polecat-nux'',
          ResCircuitState = ''open'', ResFailureCount = 3, Action = ''escalated'',
          WispID = [], MailSent = [], Error = None\<rparr>],
        [NukeEv ''/town/gastown'' ''gastown'' ''nux''])"
  by code_simp

text \<open>
  C3, as the code has it. When \<open>processTrippedCircuit\<close> ends with the action \<open>escalated\<close>
  and the router is not nil, the last two collaborator calls are \<open>AutoNukeIfClean\<close> and a
  \<open>Send\<close> of the escalation message: to \<open>mayor/\<close>, urgent, its body giving the circuit
  state, the failure count, the cleanup status, the hook bead and the reason of the nuke
  result. What \<open>Send\<close> returns is dropped. With a nil router the agent has no hooked work
  and the trace gains the nuke call only.
\<close>

theorem escalation_notification:
  assumes "processTrippedCircuit env workDir rigName bid flds config router result tr = (r, tr')"
    and "Action r = ''escalated''"
  shows "(case router of
            None \<Rightarrow> HookBead flds = [] \<and> tr' = tr @ [NukeEv workDir rigName (PolecatName result)]
          | Some rt \<Rightarrow>
              (\<exists>tr1 reason.
                 reason = Reason (AutoNukeIfClean env tr1 workDir rigName (PolecatName result))
                 \<and> tr' = tr1 @ [NukeEv workDir rigName (PolecatName result),
                                 SendEv (escalationMessage rigName (PolecatName result) flds reason)]
                 \<and> To (escalationMessage rigName (PolecatName result) flds reason) = ''mayor/''
                 \<and> MsgPriority (escalationMessage rigName (PolecatName result) flds reason)
                     = PriorityUrgent
                 \<and> (\<exists>pre post.
                       Body (escalationMessage rigName (PolecatName result) flds reason)
                         = pre @ ''Circuit State: '' @ CircuitState flds @ NL
                             @ ''Failure Count: '' @ fmtInt (FailureCount flds) @ NL
                             @ ''Cleanup Status: '' @ CleanupStatus flds @ NL
                             @ ''Hook Bead: '' @ HookBead flds @ NL
                             @ ''Nuke Blocked: '' @ reason @ post)))"
proof -
  from assms(2) have "Action r \<noteq> ''error''"
    by simp
  from process_reaches_nuke [OF assms(1) this]
  obtain res0 tr0 where n: "nukeAndSettle env workDir rigName flds router res0 tr0 = (r, tr')"
    and name: "PolecatName res0 = PolecatName result"
    and idle: "HookBead flds = [] \<longrightarrow> tr0 = tr"
    and hooked: "HookBead flds \<noteq> [] \<longrightarrow> router \<noteq> None"
    by blast
  note t = nuke_escalated_trace [OF n assms(2), unfolded name]
  show ?thesis
  proof (cases router)
    case None
    with hooked idle have "HookBead flds = []" and "tr0 = tr"
      by simp_all
    with t None show ?thesis
      by (simp add: escalateIfRouter_def)
  next
    case (Some rt)
    let ?reason = "Reason (AutoNukeIfClean env tr0 workDir rigName (PolecatName result))"
    let ?msg = "escalationMessage rigName (PolecatName result) flds ?reason"
    from t Some
    have f1: "tr' = tr0 @ [NukeEv workDir rigName (PolecatName result), SendEv ?msg]"
      by (simp add: escalateIfRouter_def escalateTrippedCircuit_def)
    have f2: "To ?msg = ''mayor/''" and f3: "MsgPriority ?msg = PriorityUrgent"
      by (simp_all add: escalationMessage_header)
    note f4 = escalationMessage_describes [of rigName "PolecatName result" flds ?reason]
    show ?thesis
      unfolding Some option.case
      apply (rule exI [of _ tr0])
      apply (rule exI [of _ ?reason])
      apply (rule conjI [OF refl conjI [OF f1 conjI [OF f2 conjI [OF f3 f4]]]])
      done
  qed
qed

theorem escalation_notification_witness:
  "Action (fst (processTrippedCircuit (sampleEnv sampleBeads nukeRefused) ''/town/gastown''
                  ''gastown'' ''gs-gastown-polecat-nux'' sampleFields DefaultCircuitBreakerConfig
                  (Some okRouter) (newResult ''gs-gastown-polecat-nux'' sampleFields) []))
     = ''escalated''
   \<and> last (snd (processTrippedCircuit (sampleEnv sampleBeads nukeRefused) ''/town/gastown''
                  ''gastown'' ''gs-gastown-polecat-nux'' sampleFields DefaultCircuitBreakerConfig
                  (Some okRouter) (newResult ''gs-gastown-polecat-nux'' sampleFields) []))
     = SendEv (escalationMessage ''gastown'' ''nux'' sampleFields ''uncommitted changes'')"
proof -
  let ?p = "processTrippedCircuit (sampleEnv sampleBeads nukeRefused) ''/town/gastown''
              ''gastown'' ''gs-gastown-polecat-nux'' sampleFields DefaultCircuitBreakerConfig
              (Some okRouter) (newResult ''gs-gastown-polecat-nux'' sampleFields) []"
  have n: "PolecatName (newResult ''gs-gastown-polecat-nux'' sampleFields) = ''nux''"
    by code_simp
  have h1: "?p = (fst ?p, snd ?p)"
    by simp
  have h2: "Action (fst ?p) = ''escalated''"
    by code_simp
  have r: "Reason (AutoNukeIfClean (sampleEnv sampleBeads nukeRefused) t w g p)
             = ''uncommitted changes''" for t w g p
    by (simp add: sampleEnv_def nukeRefused_def)
  from escalation_notification [OF h1 h2]
  obtain tr1 where "snd ?p = tr1 @ [NukeEv ''/town/gastown'' ''gastown'' ''nux'',
      SendEv (escalationMessage ''gastown'' ''nux'' sampleFields ''uncommitted changes'')]"
    unfolding option.case n r by blast
  then have "last (snd ?p)
      = SendEv (escalationMessage ''gastown'' ''nux'' sampleFields ''uncommitted changes'')"
    by simp
  with h2 show ?thesis by (rule conjI)
qed

text \<open>
  C4. When the town root is found and the agent beads are listed, \<open>CheckCircuitBreakers\<close>
  returns one result for each bead that is a polecat of the rig with an open circuit, in
  the order visited, and the other beads change nothing: the results and the trace are
  those of the run on the snapshot with the other beads removed.
\<close>

theorem check_processes_candidates:
  assumes "workspace_Find env workDir = (townRoot, None)"
    and "townRoot \<noteq> []"
    and "ListAgentBeads env workDir = Inr agentBeads"
  shows "map AgentBeadID (fst (CheckCircuitBreakers env workDir rigName config router tr))
           = map fst (filter (isCandidate env rigName) agentBeads)
         \<and> CheckCircuitBreakers env workDir rigName config router tr
           = CheckCircuitBreakers
               (env\<lparr>ListAgentBeads := (\<lambda>w. Inr (filter (isCandidate env rigName) agentBeads))\<rparr>)
               workDir rigName config router tr"
proof -
  let ?env' = "env\<lparr>ListAgentBeads := (\<lambda>w. Inr (filter (isCandidate env rigName) agentBeads))\<rparr>"
  let ?config = "case config of None \<Rightarrow> DefaultCircuitBreakerConfig | Some c \<Rightarrow> c"
  have a: "CheckCircuitBreakers env workDir rigName config router tr
           = checkLoop env workDir rigName ?config router agentBeads [] tr"
    by (rule CheckCircuitBreakers_found [OF assms])
  have "CheckCircuitBreakers ?env' workDir rigName config router tr
        = checkLoop ?env' workDir rigName ?config router
            (filter (isCandidate env rigName) agentBeads) [] tr"
    using assms(1,2) by (intro CheckCircuitBreakers_found) simp_all
  then have b: "CheckCircuitBreakers ?env' workDir rigName config router tr
        = checkLoop env workDir rigName ?config router agentBeads [] tr"
    by (simp only: checkLoop_env_irrelevant checkLoop_filter)
  show ?thesis
    by (simp only: a b checkLoop_ids) simp
qed

theorem check_processes_candidates_witness:
  "workspace_Find (sampleEnv sampleBeads nukeDone) ''/town/gastown'' = (''/town'', None)
   \<and> ''/town'' \<noteq> []
   \<and> ListAgentBeads (sampleEnv sampleBeads nukeDone) ''/town/gastown'' = Inr sampleBeads
   \<and> map AgentBeadID (fst (CheckCircuitBreakers (sampleEnv sampleBeads nukeDone)
                              ''/town/gastown'' ''gastown'' None (Some okRouter) []))
       = [''gs-gastown-polecat-nux'']"
proof -
  have h1: "workspace_Find (sampleEnv sampleBeads nukeDone) ''/town/gastown'' = (''/town'', None)"
    by (simp add: sampleEnv_def)
  have h2: "''/town'' \<noteq> []"
    by simp
  have h3: "ListAgentBeads (sampleEnv sampleBeads nukeDone) ''/town/gastown'' = Inr sampleBeads"
    by (simp add: sampleEnv_def)
  have f: "map fst (filter (isCandidate (sampleEnv sampleBeads nukeDone) ''gastown'') sampleBeads)
             = [''gs-gastown-polecat-nux'']"
    by code_simp
  have "map AgentBeadID (fst (CheckCircuitBreakers (sampleEnv sampleBeads nukeDone)
                              ''/town/gastown'' ''gastown'' None (Some okRouter) []))
          = map fst (filter (isCandidate (sampleEnv sampleBeads nukeDone) ''gastown'') sampleBeads)"
    using check_processes_candidates [OF h1 h2 h3, of "''gastown''" None "Some okRouter" "[]"]
    by (rule conjunct1)
  then have c: "map AgentBeadID (fst (CheckCircuitBreakers (sampleEnv sampleBeads nukeDone)
                              ''/town/gastown'' ''gastown'' None (Some okRouter) []))
          = [''gs-gastown-polecat-nux'']"
    by (simp only: f)
  show ?thesis
    by (rule conjI [OF h1 conjI [OF h2 conjI [OF h3 c]]])
qed

text \<open>
  C10. Every result of \<open>CheckCircuitBreakers\<close> has the action \<open>requeued\<close>, \<open>escalated\<close> or
  \<open>error\<close>; the actions \<open>nuked\<close> and \<open>half_open\<close> of the result type's comment never occur.
\<close>

theorem check_actions_produced:
  "\<forall>r \<in> set (fst (CheckCircuitBreakers env workDir rigName config router tr)).
     Action r \<in> {''requeued'', ''escalated'', ''error''}
     \<and> Action r \<noteq> ''nuked'' \<and> Action r \<noteq> ''half_open''"
proof -
  have "\<forall>r \<in> set (fst (CheckCircuitBreakers env workDir rigName config router tr)).
          Action r \<in> {''requeued'', ''escalated'', ''error''}"
    using checkLoop_actions [of "[]" env workDir rigName _ router _ tr]
    by (auto simp: CheckCircuitBreakers_def Let_def split: prod.splits sum.splits)
  then show ?thesis by auto
qed

theorem check_actions_produced_witness:
  "fst (CheckCircuitBreakers (sampleEnv sampleBeads nukeDone) ''/town/gastown'' ''gastown''
          None (Some okRouter) []) \<noteq> []
   \<and> Action (hd (fst (CheckCircuitBreakers (sampleEnv sampleBeads nukeDone) ''/town/gastown''
                        ''gastown'' None (Some okRouter) [])))
       \<in> {''requeued'', ''escalated'', ''error''}
   \<and> Action (hd (fst (CheckCircuitBreakers (sampleEnv sampleBeads nukeDone) ''/town/gastown''
                        ''gastown'' None (Some okRouter) []))) \<noteq> ''nuked''
   \<and> Action (hd (fst (CheckCircuitBreakers (sampleEnv sampleBeads nukeDone) ''/town/gastown''
                        ''gastown'' None (Some okRouter) []))) \<noteq> ''half_open''"
proof -
  let ?rs = "fst (CheckCircuitBreakers (sampleEnv sampleBeads nukeDone) ''/town/gastown''
               ''gastown'' None (Some okRouter) [])"
  have ne: "?rs \<noteq> []"
    by code_simp
  then have "hd ?rs \<in> set ?rs"
    by (rule hd_in_set)
  with check_actions_produced [of "sampleEnv sampleBeads nukeDone" "''/town/gastown''"
      "''gastown''" None "Some okRouter" "[]"]
  have "Action (hd ?rs) \<in> {''requeued'', ''escalated'', ''error''}
        \<and> Action (hd ?rs) \<noteq> ''nuked'' \<and> Action (hd ?rs) \<noteq> ''half_open''"
    by (rule bspec)
  with ne show ?thesis by (rule conjI)
qed


section \<open>Claims about the failure counter\<close>

lemma HandlePolecatFailure_found:
  assumes "workspace_Find env workDir = (townRoot, None)"
    and "townRoot \<noteq> []"
    and "PolecatBeadIDWithPrefix env (GetPrefixForRig env townRoot rigName) rigName polecatName
           = bid"
    and "store bid = Some flds"
  shows "HandlePolecatFailure env store workDir rigName polecatName maxFailures
         = ((FailureCount flds + 1, maxFailures \<le> FailureCount flds + 1, None),
            store(bid \<mapsto> flds\<lparr>FailureCount := FailureCount flds + 1,
                                CircuitState := (if maxFailures \<le> FailureCount flds + 1
                                                 then CircuitOpen else CircuitState flds)\<rparr>))"
  using assms
  by (simp add: HandlePolecatFailure_def IncrementAgentFailureCount_def Let_def)

text \<open>
  \<open>n\<close> reports in a row: the \<open>k\<close>-th returns the count raised by \<open>k\<close> and whether it
  reached the maximum, and the circuit is open afterwards exactly if the last count did.
\<close>

lemma recordFailures_run:
  assumes "workspace_Find env workDir = (townRoot, None)"
    and "townRoot \<noteq> []"
    and "PolecatBeadIDWithPrefix env (GetPrefixForRig env townRoot rigName) rigName polecatName
           = bid"
    and "store bid = Some flds"
  shows "fst (recordFailures env workDir rigName polecatName maxFailures n store)
           = map (\<lambda>k. (FailureCount flds + int k + 1,
                        maxFailures \<le> FailureCount flds + int k + 1, None)) [0..<n]
         \<and> snd (recordFailures env workDir rigName polecatName maxFailures n store) bid
           = Some (if n = 0 then flds
                   else flds\<lparr>FailureCount := FailureCount flds + int n,
                             CircuitState := (if maxFailures \<le> FailureCount flds + int n
                                              then CircuitOpen else CircuitState flds)\<rparr>)"
  using assms(4)
proof (induction n arbitrary: store flds)
  case 0
  then show ?case by simp
next
  case (Suc n)
  define flds1 where "flds1 = flds\<lparr>FailureCount := FailureCount flds + 1,
                      CircuitState := (if maxFailures \<le> FailureCount flds + 1
                                       then CircuitOpen else CircuitState flds)\<rparr>"
  define store1 where "store1 = store(bid \<mapsto> flds1)"
  have h: "HandlePolecatFailure env store workDir rigName polecatName maxFailures
           = ((FailureCount flds + 1, maxFailures \<le> FailureCount flds + 1, None), store1)"
    unfolding store1_def flds1_def
    by (rule HandlePolecatFailure_found [where store = store and bid = bid and flds = flds,
          OF assms(1-3) Suc.prems])
  have s1: "store1 bid = Some flds1"
    by (simp add: store1_def)
  have c1: "FailureCount flds1 = FailureCount flds + 1"
    by (simp add: flds1_def)
  have st1: "CircuitState flds1
             = (if maxFailures \<le> FailureCount flds + 1 then CircuitOpen else CircuitState flds)"
    by (simp add: flds1_def)
  note ih = Suc.IH [where store = store1 and flds = flds1, OF s1, unfolded c1]
  have r: "recordFailures env workDir rigName polecatName maxFailures (Suc n) store
           = ((FailureCount flds + 1, maxFailures \<le> FailureCount flds + 1, None)
                # fst (recordFailures env workDir rigName polecatName maxFailures n store1),
              snd (recordFailures env workDir rigName polecatName maxFailures n store1))"
    by (simp add: h split: prod.splits)
  have a: "fst (recordFailures env workDir rigName polecatName maxFailures (Suc n) store)
           = map (\<lambda>k. (FailureCount flds + int k + 1,
                        maxFailures \<le> FailureCount flds + int k + 1, None)) [0..<Suc n]"
    unfolding r fst_conv map_upt_Suc ih [THEN conjunct1]
    by (simp add: algebra_simps)
  have b: "snd (recordFailures env workDir rigName polecatName maxFailures (Suc n) store) bid
           = Some (flds\<lparr>FailureCount := FailureCount flds + int (Suc n),
                         CircuitState := (if maxFailures \<le> FailureCount flds + int (Suc n)
                                          then CircuitOpen else CircuitState flds)\<rparr>)"
  proof (cases "n = 0")
    case True
    with ih [THEN conjunct2] show ?thesis
      unfolding r snd_conv by (simp add: flds1_def)
  next
    case False
    with ih [THEN conjunct2] show ?thesis
      unfolding r snd_conv by (simp add: flds1_def algebra_simps)
  qed
  from a b show ?case by simp
qed

text \<open>
  C9. On a fresh agent record (failure count 0, circuit closed) and with a positive
  \<open>maxFailures\<close>, that many calls of \<open>HandlePolecatFailure\<close> in a row return the counts
  1, 2, ... without error; the tripped flag is false on all calls but the last and
  true on the last; the circuit is still closed after every smaller number of calls and
  open after the last.
\<close>

theorem failures_trip_on_last_call:
  assumes "workspace_Find env workDir = (townRoot, None)"
    and "townRoot \<noteq> []"
    and "PolecatBeadIDWithPrefix env (GetPrefixForRig env townRoot rigName) rigName polecatName
           = bid"
    and "store bid = Some flds"
    and "FailureCount flds = 0"
    and "CircuitState flds = CircuitClosed"
    and "0 < maxFailures"
  shows "fst (recordFailures env workDir rigName polecatName maxFailures (nat maxFailures) store)
           = map (\<lambda>k. (int k + 1, int k + 1 = maxFailures, None)) [0..<nat maxFailures]
         \<and> snd (recordFailures env workDir rigName polecatName maxFailures (nat maxFailures) store)
             bid
           = Some (flds\<lparr>FailureCount := maxFailures, CircuitState := CircuitOpen\<rparr>)
         \<and> (\<forall>n < nat maxFailures.
               snd (recordFailures env workDir rigName polecatName maxFailures n store) bid
                 = Some (flds\<lparr>FailureCount := int n, CircuitState := CircuitClosed\<rparr>))"
proof -
  note run = recordFailures_run [where store = store and bid = bid and flds = flds
      and maxFailures = maxFailures, OF assms(1-4)]
  have a: "fst (recordFailures env workDir rigName polecatName maxFailures (nat maxFailures) store)
           = map (\<lambda>k. (int k + 1, int k + 1 = maxFailures, None)) [0..<nat maxFailures]"
    using run [of "nat maxFailures", THEN conjunct1] assms(5)
    by auto
  have b: "snd (recordFailures env workDir rigName polecatName maxFailures (nat maxFailures) store)
             bid
           = Some (flds\<lparr>FailureCount := maxFailures, CircuitState := CircuitOpen\<rparr>)"
    using run [of "nat maxFailures", THEN conjunct2] assms(5,7)
    by simp
  have c: "snd (recordFailures env workDir rigName polecatName maxFailures n store) bid
           = Some (flds\<lparr>FailureCount := int n, CircuitState := CircuitClosed\<rparr>)"
    if "n < nat maxFailures" for n
    using run [of n, THEN conjunct2] assms(5,6) that
    by (cases "n = 0") auto
  from a b c show ?thesis by simp
qed

theorem failures_trip_on_last_call_witness:
  "fst (recordFailures (sampleEnv sampleBeads nukeDone) ''/town/gastown'' ''gastown'' ''nux''
          3 3 sampleStore)
     = [(1, False, None), (2, False, None), (3, True, None)]
   \<and> map_option CircuitState
        (snd (recordFailures (sampleEnv sampleBeads nukeDone) ''/town/gastown'' ''gastown''
                ''nux'' 3 3 sampleStore) ''gs-gastown-polecat-nux'') = Some CircuitOpen
   \<and> map_option CircuitState
        (snd (recordFailures (sampleEnv sampleBeads nukeDone) ''/town/gastown'' ''gastown''
                ''nux'' 3 2 sampleStore) ''gs-gastown-polecat-nux'') = Some CircuitClosed"
proof -
  let ?env = "sampleEnv sampleBeads nukeDone"
  let ?flds = "sampleFields\<lparr>FailureCount := 0, CircuitState := CircuitClosed\<rparr>"
  have h1: "workspace_Find ?env ''/town/gastown'' = (''/town'', None)"
    by (simp add: sampleEnv_def)
  have h2: "''/town'' \<noteq> []"
    by simp
  have h3: "PolecatBeadIDWithPrefix ?env (GetPrefixForRig ?env ''/town'' ''gastown'') ''gastown''
              ''nux'' = ''gs-gastown-polecat-nux''"
    by (simp add: sampleEnv_def)
  have h4: "sampleStore ''gs-gastown-polecat-nux'' = Some ?flds"
    by (simp add: sampleStore_def)
  have h5: "FailureCount ?flds = 0"
    by simp
  have h6: "CircuitState ?flds = CircuitClosed"
    by simp
  have h7: "(0::int) < 3"
    by simp
  have u: "[0..<3] = [0, 1, 2::nat]"
    by (simp add: upt_rec)
  note t = failures_trip_on_last_call [where store = sampleStore
      and bid = "''gs-gastown-polecat-nux''" and flds = ?flds, OF h1 h2 h3 h4 h5 h6 h7]
  have n3: "nat 3 = 3"
    by simp
  have a: "fst (recordFailures ?env ''/town/gastown'' ''gastown'' ''nux'' 3 3 sampleStore)
           = [(1, False, None), (2, False, None), (3, True, None)]"
    using t [THEN conjunct1] by (simp add: u)
  have b: "map_option CircuitState
        (snd (recordFailures ?env ''/town/gastown'' ''gastown'' ''nux'' 3 3 sampleStore)
           ''gs-gastown-polecat-nux'') = Some CircuitOpen"
    using t [THEN conjunct2, THEN conjunct1] unfolding n3 by simp
  have c: "map_option CircuitState
        (snd (recordFailures ?env ''/town/gastown'' ''gastown'' ''nux'' 3 2 sampleStore)
           ''gs-gastown-polecat-nux'') = Some CircuitClosed"
    using t [THEN conjunct2, THEN conjunct2, THEN spec, of 2] by simp
  show ?thesis
    by (rule conjI [OF a conjI [OF b c]])
qed


section \<open>Rounding to float64 is monotone\<close>














lemma ScoreMR64_exact: "ScoreMR64 (\<lambda>x. x) wallClock inp config = ScoreMR wallClock inp config"
  by (simp add: ScoreMR64_def ScoreMR_def Let_def split: option.splits)



section \<open>Claims about parsing a requeue message\<close>

lemma hasPrefix_iff_prefix: "hasPrefix s p \<longleftrightarrow> prefix p s"
proof
  assume "hasPrefix s p"
  then have "take (length p) s = p"
    by (simp add: hasPrefix_def)
  then show "prefix p s"
    by (metis take_is_prefix)
next
  assume "prefix p s"
  then obtain zs where "s = p @ zs"
    by (auto simp: prefix_def)
  then show "hasPrefix s p"
    by (simp add: hasPrefix_def)
qed

text \<open>
  C8. The subject \<open>WORK_REQUEUE bd-xyz\<close> with an empty body parses to the bead \<open>bd-xyz\<close>,
  no previous polecat and the failure count 0; a subject that does not begin with
  \<open>WORK_REQUEUE \<close> is an error, whatever the body.
\<close>

theorem parse_minimal_and_reject:
  "ParseWorkRequeue ''WORK_REQUEUE bd-xyz'' []
     = Inr \<lparr>BeadID = ''bd-xyz'', PreviousPolecat = [], RequeueFailureCount = 0\<rparr>
   \<and> (\<not> prefix ''WORK_REQUEUE '' subject \<longrightarrow> isl (ParseWorkRequeue subject body))"
proof
  show "ParseWorkRequeue ''WORK_REQUEUE bd-xyz'' []
     = Inr \<lparr>BeadID = ''bd-xyz'', PreviousPolecat = [], RequeueFailureCount = 0\<rparr>"
    by (simp add: ParseWorkRequeue_def hasPrefix_def requeuePrefix_def)
next
  show "\<not> prefix ''WORK_REQUEUE '' subject \<longrightarrow> isl (ParseWorkRequeue subject body)"
    by (simp add: ParseWorkRequeue_def hasPrefix_iff_prefix requeuePrefix_def)
qed

theorem parse_minimal_and_reject_witness:
  "\<not> prefix ''WORK_REQUEUE '' ''INVALID_MESSAGE'' \<and> isl (ParseWorkRequeue ''INVALID_MESSAGE'' [])"
proof -
  have h: "\<not> prefix ''WORK_REQUEUE '' ''INVALID_MESSAGE''"
    by simp
  from parse_minimal_and_reject [of "''INVALID_MESSAGE''" "[]", THEN conjunct2] h
  have "isl (ParseWorkRequeue ''INVALID_MESSAGE'' [])"
    by (rule mp)
  with h show ?thesis by (rule conjI)
qed

section \<open>Claims about the score\<close>

lemma hoursBetween_back: "hoursBetween (now - k * Hour) now = real_of_int k"
  by (simp add: hoursBetween_def Hour_def)

lemma hoursBetween_back_one: "hoursBetween (now - Hour) now = 1"
  using hoursBetween_back [of now 1] by simp

text \<open>
  C5. With the default configuration and an evaluation time that is set, priority 2, a
  work item created 2 hours before, a convoy created 24 hours before and 1 retry score
  1392; priority 2, a work item created 1 hour before, no convoy and no retry score 1201.
\<close>

theorem score_expected_values:
  assumes "now \<noteq> 0"
  shows "ScoreMR wallClock
           \<lparr>Priority = 2, MRCreatedAt = now - 2 * Hour, ConvoyCreatedAt = Some (now - 24 * Hour),
            RetryCount = 1, Now = now\<rparr> DefaultScoreConfig = 1392
         \<and> ScoreMR wallClock
             \<lparr>Priority = 2, MRCreatedAt = now - 1 * Hour, ConvoyCreatedAt = None,
              RetryCount = 0, Now = now\<rparr> DefaultScoreConfig = 1201"
  using assms
  by (simp add: ScoreMR_def DefaultScoreConfig_def hoursBetween_back hoursBetween_back_one)

theorem score_expected_values_witness:
  "(63901569600000000000::int) \<noteq> 0
   \<and> ScoreMR 0 sampleInput DefaultScoreConfig = 1392"
proof -
  have h: "(63901569600000000000::int) \<noteq> 0"
    by simp
  from score_expected_values [OF h, of 0, THEN conjunct1]
  have "ScoreMR 0 sampleInput DefaultScoreConfig = 1392"
    by (simp only: sampleInput_def)
  with h show ?thesis by (rule conjI)
qed






end
